theory Spec2Isabelle
  imports Main
begin

section \<open>Python values\<close>

text \<open>
  A Python \<open>str\<close> is a sequence of Unicode code points, so it is modelled as a list of
  natural numbers. \<open>str\<close> turns an ASCII literal of the source into that representation.
\<close>

type_synonym pystr = "nat list"

definition str :: "string \<Rightarrow> pystr" where
  "str s = map of_char s"

text \<open>
  The values a \<open>Dict[str, Any]\<close> can hold, as far as the functions below look at them.
\<close>

datatype pyval =
    PNone
  | PBool bool
  | PInt int
  | PStr pystr
  | PList "pyval list"
  | PDict "(pystr \<times> pyval) list"

text \<open>
  Exceptions are values. Each carries the text that \<open>str(e)\<close> gives. Only subclasses of
  \<open>Exception\<close> occur.
\<close>

datatype py_error =
    AttributeError pystr
  | TypeError pystr
  | IndexError pystr
  | TimeoutExpired pystr
  | FileNotFoundError pystr
  | OSError pystr
  | OtherException pystr

fun exc_str :: "py_error \<Rightarrow> pystr" where
  "exc_str (AttributeError m) = m"
| "exc_str (TypeError m) = m"
| "exc_str (IndexError m) = m"
| "exc_str (TimeoutExpired m) = m"
| "exc_str (FileNotFoundError m) = m"
| "exc_str (OSError m) = m"
| "exc_str (OtherException m) = m"

fun type_name :: "pyval \<Rightarrow> pystr" where
  "type_name PNone = str ''NoneType''"
| "type_name (PBool b) = str ''bool''"
| "type_name (PInt n) = str ''int''"
| "type_name (PStr s) = str ''str''"
| "type_name (PList xs) = str ''list''"
| "type_name (PDict kvs) = str ''dict''"

text \<open>Truth value testing, as \<open>not approved\<close> does it.\<close>

fun truthy :: "pyval \<Rightarrow> bool" where
  "truthy PNone = False"
| "truthy (PBool b) = b"
| "truthy (PInt n) = (n \<noteq> 0)"
| "truthy (PStr s) = (s \<noteq> [])"
| "truthy (PList xs) = (xs \<noteq> [])"
| "truthy (PDict kvs) = (kvs \<noteq> [])"

text \<open>
  \<open>str.lower()\<close>. The ASCII capitals are mapped to their small letters. Two code points
  above 127 have a lower case that contains an ASCII letter: U+212A becomes \<open>k\<close>, and
  U+0130 becomes \<open>i\<close> followed by U+0307. The other code points above 127 are left alone:
  Python maps some of them to other code points above 127, never to an ASCII one.
\<close>

definition lower_cp :: "nat \<Rightarrow> pystr" where
  "lower_cp c =
     (if 65 \<le> c \<and> c \<le> 90 then [c + 32]
      else if c = 8490 then [107]
      else if c = 304 then [105, 775]
      else [c])"

definition py_lower :: "pystr \<Rightarrow> pystr" where
  "py_lower s = concat (map lower_cp s)"

text \<open>The method call \<open>v.lower()\<close> on an arbitrary value: only a \<open>str\<close> has the method.\<close>

fun lower_method :: "pyval \<Rightarrow> py_error + pystr" where
  "lower_method (PStr s) = Inr (py_lower s)"
| "lower_method v =
     Inl (AttributeError ([39] @ type_name v @ [39] @ str '' object has no attribute ''
            @ [39] @ str ''lower'' @ [39]))"

text \<open>\<open>d.get(key, default)\<close>\<close>

type_synonym pydict = "pystr \<rightharpoonup> pyval"

definition dict_get :: "pydict \<Rightarrow> pystr \<Rightarrow> pyval \<Rightarrow> pyval" where
  "dict_get d k dflt = (case d k of Some v \<Rightarrow> v | None \<Rightarrow> dflt)"


section \<open>The refinement decision (agents.py)\<close>

text \<open>The default of the parameter \<open>max_iterations\<close>.\<close>

definition DEFAULT_MAX_REFINEMENT_ITERATIONS :: int where
  "DEFAULT_MAX_REFINEMENT_ITERATIONS = 2"

definition should_refine :: "pydict \<Rightarrow> int \<Rightarrow> int \<Rightarrow> py_error + bool" where
  "should_refine audit_report refinement_count max_iterations =
     (if refinement_count \<ge> max_iterations then Inr False
      else
        case lower_method (dict_get audit_report (str ''severity_level'') (PStr (str ''unknown''))) of
          Inl e \<Rightarrow> Inl e
        | Inr severity \<Rightarrow>
            let approved = dict_get audit_report (str ''approved'') (PBool False) in
            if \<not> truthy approved \<and> severity \<in> set [str ''medium'', str ''high'', str ''critical'']
            then Inr True
            else Inr False)"

text \<open>
  The audit report of the data model: \<open>severity_level\<close> is one of six words and
  \<open>approved\<close> is a boolean. The two readers below return the field when the dictionary
  holds it with that type.
\<close>

definition severity_levels :: "pystr list" where
  "severity_levels =
     [str ''none'', str ''low'', str ''medium'', str ''high'', str ''critical'', str ''unknown'']"

definition report_severity :: "pydict \<Rightarrow> pystr option" where
  "report_severity r =
     (case r (str ''severity_level'') of
        Some (PStr s) \<Rightarrow> if s \<in> set severity_levels then Some s else None
      | _ \<Rightarrow> None)"

definition report_approved :: "pydict \<Rightarrow> bool option" where
  "report_approved r = (case r (str ''approved'') of Some (PBool b) \<Rightarrow> Some b | _ \<Rightarrow> None)"

text \<open>
  A case variant of a word: the same length, and at each position the letter of the word
  or its ASCII capital.
\<close>

definition upper_cp :: "nat \<Rightarrow> nat" where
  "upper_cp c = (if 97 \<le> c \<and> c \<le> 122 then c - 32 else c)"

definition case_variant :: "pystr \<Rightarrow> pystr \<Rightarrow> bool" where
  "case_variant s w = list_all2 (\<lambda>a b. a = b \<or> a = upper_cp b) s w"


section \<open>The audit and refine loop\<close>

record refinement_state =
  code :: pystr
  audit :: pydict
  iteration_count :: int

text \<open>
  Modelled from the spec: the orchestrator (\<open>translator.py\<close>) that runs the loop is not
  among the sources. The specification gives the loop as a state machine: from
  \<open>Audited\<close> the transition to \<open>Refining\<close> is taken iff \<open>should_refine\<close> returns true; it
  invokes the refiner with the current code and report, increments the iteration count,
  and the auditor is run again on the refined code. Otherwise the loop ends with the
  last code and its last report. The two stages are opaque and are parameters here.
\<close>

function refine_loop ::
  "(pystr \<Rightarrow> pydict) \<Rightarrow> (pystr \<Rightarrow> pydict \<Rightarrow> pystr) \<Rightarrow> int \<Rightarrow> refinement_state
     \<Rightarrow> py_error + refinement_state" where
  "refine_loop auditor refiner max_iterations st =
     (case should_refine (audit st) (iteration_count st) max_iterations of
        Inl e \<Rightarrow> Inl e
      | Inr go \<Rightarrow>
          if go then
            let new_code = refiner (code st) (audit st) in
            refine_loop auditor refiner max_iterations
              \<lparr>code = new_code, audit = auditor new_code,
               iteration_count = iteration_count st + 1\<rparr>
          else Inr st)"
  by pat_completeness auto
termination
  by (relation "measure (\<lambda>(a, r, m, st). nat (m - iteration_count st))")
     (auto simp: should_refine_def split: if_splits)


section \<open>String operations\<close>

text \<open>
  \<open>str.isspace\<close> on one code point: the white space of Unicode, which is what
  \<open>str.strip()\<close> without an argument removes at both ends.
\<close>

definition is_space :: "nat \<Rightarrow> bool" where
  "is_space c \<longleftrightarrow>
     (9 \<le> c \<and> c \<le> 13) \<or> (28 \<le> c \<and> c \<le> 32) \<or> c = 133 \<or> c = 160 \<or> c = 5760
     \<or> (8192 \<le> c \<and> c \<le> 8202) \<or> c = 8232 \<or> c = 8233 \<or> c = 8239 \<or> c = 8287
     \<or> c = 12288"

definition py_strip :: "pystr \<Rightarrow> pystr" where
  "py_strip s = rev (dropWhile is_space (rev (dropWhile is_space s)))"

definition startswith :: "pystr \<Rightarrow> pystr \<Rightarrow> bool" where
  "startswith s p \<longleftrightarrow> take (length p) s = p"

text \<open>\<open>sub in s\<close> on strings: \<open>sub\<close> occurs in \<open>s\<close> as a contiguous piece.\<close>

fun py_in :: "pystr \<Rightarrow> pystr \<Rightarrow> bool" where
  "py_in sub [] \<longleftrightarrow> sub = []"
| "py_in sub (c # cs) \<longleftrightarrow> startswith (c # cs) sub \<or> py_in sub cs"

text \<open>\<open>s.split(sep)\<close> for a separator of one code point; the result is never empty.\<close>

fun split_on :: "nat \<Rightarrow> pystr \<Rightarrow> pystr list" where
  "split_on sep [] = [[]]"
| "split_on sep (c # cs) =
     (if c = sep then [] # split_on sep cs
      else case split_on sep cs of
             l # ls \<Rightarrow> (c # l) # ls
           | [] \<Rightarrow> [[c]])"

text \<open>\<open>sep.join(xs)\<close>\<close>

fun join_with :: "pystr \<Rightarrow> pystr list \<Rightarrow> pystr" where
  "join_with sep [] = []"
| "join_with sep [x] = x"
| "join_with sep (x # y # ys) = x @ sep @ join_with sep (y # ys)"

definition newline :: nat where
  "newline = 10"


section \<open>The compilation checker (solidity_compiler.py)\<close>

subsection \<open>Removing the version pragma\<close>

text \<open>The loop of \<open>_strip_version_pragma\<close> over the lines, appending to \<open>filtered_lines\<close>.\<close>

fun strip_loop :: "pystr list \<Rightarrow> pystr list \<Rightarrow> pystr list" where
  "strip_loop [] filtered_lines = filtered_lines"
| "strip_loop (line # lines) filtered_lines =
     (let stripped = py_strip line in
      if startswith stripped (str ''pragma solidity'') then strip_loop lines filtered_lines
      else strip_loop lines (filtered_lines @ [line]))"

definition strip_version_pragma :: "pystr \<Rightarrow> pystr" where
  "strip_version_pragma solidity_code =
     (let lines = split_on newline solidity_code;
          filtered_lines = strip_loop lines []
      in join_with [newline] filtered_lines)"

subsection \<open>The world outside: processes and files\<close>

record completed =
  returncode :: int
  stdout :: pystr
  stderr :: pystr

datatype fs_entry = File pystr | Dir

type_synonym filesystem = "pystr \<rightharpoonup> fs_entry"

text \<open>
  What the operating system does during one call is given by an environment:
  \<^item> \<open>subprocess_run cmd shell timeout\<close> is the outcome of \<open>subprocess.run\<close> with captured
    text output: it raises, or it returns a completed process;
  \<^item> \<open>compile_artifacts\<close> are the files that the compiler process writes;
  \<^item> \<open>mkdir_error\<close>, \<open>named_temporary_file\<close>, \<open>write_error\<close> and \<open>unlink_error\<close> say
    whether creating the directory, creating the temporary file (and under which name,
    without its suffix), writing to it and unlinking it fail.
\<close>

record env =
  subprocess_run :: "pystr list \<Rightarrow> bool \<Rightarrow> nat \<Rightarrow> py_error + completed"
  compile_artifacts :: "(pystr \<times> fs_entry) list"
  mkdir_error :: "py_error option"
  named_temporary_file :: "py_error + pystr"
  write_error :: "py_error option"
  unlink_error :: "py_error option"

subsection \<open>Looking for a compiler\<close>

record checker =
  compiler_cmd :: "pystr list option"
  solc_available :: bool

text \<open>
  One probe of \<open>_check_solc_available\<close>: \<open>FileNotFoundError\<close> and \<open>TimeoutExpired\<close> are
  caught and count as not found, any other exception goes on to the caller.
\<close>

fun probe :: "py_error + completed \<Rightarrow> py_error + bool" where
  "probe (Inr result) = Inr (returncode result = 0)"
| "probe (Inl (FileNotFoundError m)) = Inr False"
| "probe (Inl (TimeoutExpired m)) = Inr False"
| "probe (Inl e) = Inl e"

definition check_solc_available :: "env \<Rightarrow> py_error + (pystr list option \<times> bool)" where
  "check_solc_available e =
     (case probe (subprocess_run e [str ''solc'', str ''--version''] False 5) of
        Inl err \<Rightarrow> Inl err
      | Inr True \<Rightarrow> Inr (Some [str ''solc''], True)
      | Inr False \<Rightarrow>
          (case probe (subprocess_run e [str ''npx'', str ''solcjs'', str ''--version''] True 5) of
             Inl err \<Rightarrow> Inl err
           | Inr True \<Rightarrow> Inr (Some [str ''npx'', str ''solcjs''], True)
           | Inr False \<Rightarrow> Inr (None, False)))"

definition init :: "env \<Rightarrow> py_error + checker" where
  "init e =
     (case check_solc_available e of
        Inl err \<Rightarrow> Inl err
      | Inr (cmd, avail) \<Rightarrow> Inr \<lparr>compiler_cmd = cmd, solc_available = avail\<rparr>)"

subsection \<open>Compiling\<close>

record compilation_result =
  compiles :: "bool option"
  error_message :: "pystr option"
  warnings :: "pystr list"
  compiler_version :: "pystr option"

text \<open>The loop that extracts the warnings from the standard error output.\<close>

fun warnings_loop :: "pystr list \<Rightarrow> pystr list \<Rightarrow> pystr list" where
  "warnings_loop [] ws = ws"
| "warnings_loop (line # lines) ws =
     (if py_in (str ''Warning:'') line then warnings_loop lines (ws @ [py_strip line])
      else warnings_loop lines ws)"

definition collect_warnings :: "pystr \<Rightarrow> pystr list" where
  "collect_warnings err =
     (if py_in (str ''Warning:'') err then warnings_loop (split_on newline err) [] else [])"

text \<open>
  The two command lines. \<open>c\<close> is \<open>self.compiler_cmd[0]\<close> and \<open>cs\<close> the rest of
  \<open>self.compiler_cmd\<close>.
\<close>

definition compile_cmd :: "pystr \<Rightarrow> pystr list \<Rightarrow> pystr \<Rightarrow> pystr \<Rightarrow> pystr list" where
  "compile_cmd c cs output_dir tmp_path =
     (if c = str ''npx''
      then (c # cs) @ [str ''--bin'', str ''--abi'', str ''--output-dir'', output_dir, tmp_path]
      else (c # cs) @ [str ''--bin'', str ''--abi'', str ''-o'', output_dir, tmp_path])"

definition version_cmd :: "pystr \<Rightarrow> pystr list \<Rightarrow> pystr list" where
  "version_cmd c cs = (c # cs) @ [str ''--version'']"

text \<open>
  The body of the \<open>try\<close> statement: \<open>Inl\<close> is an exception raised in it. Taking
  \<open>self.compiler_cmd[0]\<close> raises when the command is \<open>None\<close> or empty. The files the
  compiler wrote are there whether or not the run ended well.
\<close>

definition try_body ::
  "checker \<Rightarrow> env \<Rightarrow> filesystem \<Rightarrow> pystr \<Rightarrow> pystr
     \<Rightarrow> (py_error + compilation_result) \<times> filesystem" where
  "try_body self e fs output_dir tmp_path =
     (case compiler_cmd self of
        None \<Rightarrow>
          (Inl (TypeError ([39] @ str ''NoneType'' @ [39] @ str '' object is not subscriptable'')),
           fs)
      | Some [] \<Rightarrow> (Inl (IndexError (str ''list index out of range'')), fs)
      | Some (c # cs) \<Rightarrow>
          let shell = (c = str ''npx'');
              fs' = fs ++ map_of (compile_artifacts e)
          in
          case subprocess_run e (compile_cmd c cs output_dir tmp_path) shell 30 of
            Inl err \<Rightarrow> (Inl err, fs')
          | Inr result \<Rightarrow>
              (case subprocess_run e (version_cmd c cs) shell 5 of
                 Inl err \<Rightarrow> (Inl err, fs')
               | Inr version_result \<Rightarrow>
                   let version =
                         (if returncode version_result = 0 then py_strip (stdout version_result)
                          else str ''unknown'')
                   in
                   if returncode result = 0 then
                     (Inr \<lparr>compiles = Some True, error_message = None,
                           warnings = collect_warnings (stderr result),
                           compiler_version = Some version\<rparr>, fs')
                   else
                     (Inr \<lparr>compiles = Some False,
                           error_message = Some (py_strip (stderr result)),
                           warnings = [], compiler_version = Some version\<rparr>, fs')))"

text \<open>The two \<open>except\<close> clauses, in their order.\<close>

fun handle :: "py_error + compilation_result \<Rightarrow> compilation_result" where
  "handle (Inr r) = r"
| "handle (Inl (TimeoutExpired m)) =
     \<lparr>compiles = Some False,
      error_message = Some (str ''Compilation timed out after 30 seconds''),
      warnings = [], compiler_version = None\<rparr>"
| "handle (Inl e) =
     \<lparr>compiles = Some False,
      error_message = Some (str ''Unexpected error during compilation: '' @ exc_str e),
      warnings = [], compiler_version = None\<rparr>"

text \<open>The \<open>finally\<close> clause: \<open>os.unlink\<close>, whose failure is swallowed.\<close>

definition cleanup :: "env \<Rightarrow> filesystem \<Rightarrow> pystr \<Rightarrow> filesystem" where
  "cleanup e fs tmp_path = (case unlink_error e of None \<Rightarrow> fs(tmp_path := None) | Some err \<Rightarrow> fs)"

text \<open>
  \<open>Path.mkdir(exist_ok=True)\<close>: nothing happens when the directory is there, a file of
  that name is an error, and creating the directory may fail.
\<close>

definition mkdir_exist_ok :: "env \<Rightarrow> filesystem \<Rightarrow> pystr \<Rightarrow> py_error + filesystem" where
  "mkdir_exist_ok e fs path =
     (case fs path of
        Some Dir \<Rightarrow> Inr fs
      | Some (File c) \<Rightarrow>
          Inl (OSError (str ''[Errno 17] File exists: '' @ [39] @ path @ [39]))
      | None \<Rightarrow> (case mkdir_error e of Some err \<Rightarrow> Inl err | None \<Rightarrow> Inr (fs(path \<mapsto> Dir))))"

definition check_compilation ::
  "checker \<Rightarrow> env \<Rightarrow> filesystem \<Rightarrow> pystr \<Rightarrow> (py_error + compilation_result) \<times> filesystem" where
  "check_compilation self e fs solidity_code =
     (if \<not> solc_available self then
        (Inr \<lparr>compiles = None,
              error_message =
                Some (str ''solc compiler not available. Install with: npm install -g solc''),
              warnings = [], compiler_version = None\<rparr>, fs)
      else
        let modified_code = strip_version_pragma solidity_code;
            output_dir = str ''compilation_output''
        in
        case mkdir_exist_ok e fs output_dir of
          Inl err \<Rightarrow> (Inl err, fs)
        | Inr fs1 \<Rightarrow>
            (case named_temporary_file e of
               Inl err \<Rightarrow> (Inl err, fs1)
             | Inr name \<Rightarrow>
                 let tmp_path = name @ str ''.sol'' in
                 (case write_error e of
                    Some err \<Rightarrow> (Inl err, fs1(tmp_path \<mapsto> File []))
                  | None \<Rightarrow>
                      let (outcome, fs2) =
                            try_body self e (fs1(tmp_path \<mapsto> File modified_code)) output_dir tmp_path
                      in (Inr (handle outcome), cleanup e fs2 tmp_path))))"

definition check_solidity_compiles ::
  "env \<Rightarrow> filesystem \<Rightarrow> pystr \<Rightarrow> (py_error + compilation_result) \<times> filesystem" where
  "check_solidity_compiles e fs solidity_code =
     (case init e of
        Inl err \<Rightarrow> (Inl err, fs)
      | Inr checker \<Rightarrow> check_compilation checker e fs solidity_code)"


section \<open>The asset check of the launcher (launch_demo.py)\<close>

text \<open>
  The module-level statements that look for the two pages of the demo. They either end
  the process through \<open>sys.exit\<close> or let the script go on to start the servers.
  \<open>print\<close> is modelled by the list of the strings printed.
\<close>

datatype control = Continue | SysExit int

definition path_join :: "pystr \<Rightarrow> pystr \<Rightarrow> pystr" where
  "path_join d name = d @ str ''/'' @ name"

definition exists :: "filesystem \<Rightarrow> pystr \<Rightarrow> bool" where
  "exists fs p \<longleftrightarrow> fs p \<noteq> None"

definition asset_check :: "filesystem \<Rightarrow> pystr \<Rightarrow> pystr list \<times> control" where
  "asset_check fs workspace_root =
     (let contract_translator_dir = path_join workspace_root (str ''contract-translator'');
          demo_file = path_join contract_translator_dir (str ''demo.html'');
          sampler_file = path_join contract_translator_dir (str ''sampler.html'')
      in
      if \<not> exists fs demo_file then
        ([[10, 10060] @ str '' Error: demo.html not found at '' @ demo_file], SysExit 1)
      else if \<not> exists fs sampler_file then
        ([[10, 9888, 65039] @ str '' Warning: sampler.html not found at '' @ sampler_file,
          str ''   Dataset browser will not be available.'' @ [10]], Continue)
      else
        ([str ''   '' @ [10003] @ str '' Demo files found (demo.html + sampler.html)'' @ [10]],
         Continue))"


subsection \<open>Concrete environments\<close>

text \<open>
  A checker that found the native compiler, an environment in which \<open>solc --version\<close>
  answers and every other command has the given outcome, and a file system without
  files.
\<close>

definition solc_checker :: checker where
  "solc_checker = \<lparr>compiler_cmd = Some [str ''solc''], solc_available = True\<rparr>"

definition solc_env :: "py_error + completed \<Rightarrow> (pystr \<times> fs_entry) list \<Rightarrow> py_error option \<Rightarrow> env" where
  "solc_env compile_outcome artifacts unlink =
     \<lparr>subprocess_run =
        (\<lambda>cmd shell timeout.
           if cmd = [str ''solc'', str ''--version'']
           then Inr \<lparr>returncode = 0, stdout = str ''0.8.20'' @ [newline], stderr = []\<rparr>
           else compile_outcome),
      compile_artifacts = artifacts,
      mkdir_error = None,
      named_temporary_file = Inr (str ''/tmp/tmpk3v9''),
      write_error = None,
      unlink_error = unlink\<rparr>"

definition no_files :: filesystem where
  "no_files = Map.empty"

subsection \<open>A POSIX host\<close>

text \<open>
  A host is the programs installed on it, each with what it returns for its arguments.
  \<open>posix_run\<close> is \<open>subprocess.run\<close> on such a host, for programs that end within the
  timeout. Without a shell the first item of the list is the program and the rest are its
  arguments; a program that is not installed raises \<open>FileNotFoundError\<close>. With
  \<open>shell=True\<close> and a list, the first item alone is the command line handed to
  \<open>/bin/sh\<close> and the other items are arguments of the shell itself: a one-word first
  item runs that program without arguments, and the shell returns 127 when it is not
  installed.
\<close>

type_synonym host = "pystr \<rightharpoonup> (pystr list \<Rightarrow> completed)"

definition posix_run :: "host \<Rightarrow> pystr list \<Rightarrow> bool \<Rightarrow> nat \<Rightarrow> py_error + completed" where
  "posix_run h cmd shell timeout =
     (case cmd of
        [] \<Rightarrow> Inl (IndexError (str ''list index out of range''))
      | prog # args \<Rightarrow>
          if shell then
            (case h prog of
               None \<Rightarrow>
                 Inr \<lparr>returncode = 127, stdout = [],
                      stderr = str ''/bin/sh: 1: '' @ prog @ str '': not found'' @ [newline]\<rparr>
             | Some program \<Rightarrow> Inr (program []))
          else
            (case h prog of
               None \<Rightarrow>
                 Inl (FileNotFoundError
                        (str ''[Errno 2] No such file or directory: '' @ [39] @ prog @ [39]))
             | Some program \<Rightarrow> Inr (program args)))"

definition posix_env :: "host \<Rightarrow> env" where
  "posix_env h =
     \<lparr>subprocess_run = posix_run h,
      compile_artifacts = [],
      mkdir_error = None,
      named_temporary_file = Inr (str ''/tmp/tmpk3v9''),
      write_error = None,
      unlink_error = None\<rparr>"

text \<open>
  A host with \<open>npx\<close> and without any Solidity compiler: \<open>npx\<close> alone ends with return
  code 0, and \<open>npx\<close> asked to run a package that is not there fails.
\<close>

definition npx_only_host :: host where
  "npx_only_host =
     [str ''npx'' \<mapsto>
        (\<lambda>args. if args = [] then \<lparr>returncode = 0, stdout = [], stderr = []\<rparr>
                else \<lparr>returncode = 1, stdout = [],
                      stderr = str ''npm error could not determine executable to run'' @ [newline]\<rparr>)]"


section \<open>Properties of the refinement decision\<close>

lemma py_lower_levels:
  "s \<in> set severity_levels \<Longrightarrow> py_lower s = s"
  by (auto simp: severity_levels_def str_def py_lower_def lower_cp_def)

lemma should_refine_str:
  assumes "refinement_count < max_iterations"
    and "audit_report (str ''severity_level'') = Some (PStr s)"
  shows "should_refine audit_report refinement_count max_iterations =
     Inr (\<not> truthy (dict_get audit_report (str ''approved'') (PBool False))
          \<and> py_lower s \<in> {str ''medium'', str ''high'', str ''critical''})"
  using assms by (simp add: should_refine_def dict_get_def)

lemma should_refine_missing_severity:
  assumes "refinement_count < max_iterations"
    and "audit_report (str ''severity_level'') = None"
  shows "should_refine audit_report refinement_count max_iterations = Inr False"
proof -
  have "py_lower (str ''unknown'') \<notin> {str ''medium'', str ''high'', str ''critical''}"
    by (simp add: str_def py_lower_def lower_cp_def)
  with assms show ?thesis
    by (simp add: should_refine_def dict_get_def)
qed

lemma should_refine_at_max:
  "max_iterations \<le> refinement_count \<Longrightarrow>
     should_refine audit_report refinement_count max_iterations = Inr False"
  by (simp add: should_refine_def)

lemma should_refine_True_below_max:
  "should_refine audit_report refinement_count max_iterations = Inr True \<Longrightarrow>
     refinement_count < max_iterations"
  by (rule ccontr) (simp add: should_refine_def)

lemma py_lower_case_variant:
  assumes "case_variant s w" and "\<forall>c \<in> set w. 97 \<le> c \<and> c \<le> 122"
  shows "py_lower s = w"
  using assms unfolding case_variant_def
proof (induction s w rule: list_all2_induct)
  case Nil
  show ?case by (simp add: py_lower_def)
next
  case (Cons a s b w)
  from Cons.prems have b: "97 \<le> b" "b \<le> 122" and w: "\<forall>c \<in> set w. 97 \<le> c \<and> c \<le> 122"
    by simp_all
  from Cons.hyps(1) b have "lower_cp a = [b]"
    by (auto simp: lower_cp_def upper_cp_def)
  moreover from Cons.IH w have "py_lower s = w" .
  ultimately show ?case by (simp add: py_lower_def)
qed

lemma refining_words_small_letters:
  "w \<in> {str ''medium'', str ''high'', str ''critical''} \<Longrightarrow> \<forall>c \<in> set w. 97 \<le> c \<and> c \<le> 122"
  by (auto simp: str_def)

lemma py_lower_idem: "py_lower (py_lower s) = py_lower s"
  by (induction s) (auto simp: py_lower_def lower_cp_def)


subsection \<open>The loop modelled from the specification stays within the maximum\<close>

lemma refine_loop_count:
  "iteration_count st \<le> max_iterations \<Longrightarrow>
   refine_loop auditor refiner max_iterations st = Inr st' \<Longrightarrow>
   iteration_count st \<le> iteration_count st' \<and> iteration_count st' \<le> max_iterations"
proof (induction auditor refiner max_iterations st rule: refine_loop.induct)
  case (1 auditor refiner max_iterations st)
  show ?case
  proof (cases "should_refine (audit st) (iteration_count st) max_iterations")
    case (Inl e)
    with "1.prems"(2) show ?thesis by simp
  next
    case (Inr go)
    show ?thesis
    proof (cases go)
      case False
      with Inr "1.prems" show ?thesis by simp
    next
      case True
      let ?st = "\<lparr>code = refiner (code st) (audit st),
                  audit = auditor (refiner (code st) (audit st)),
                  iteration_count = iteration_count st + 1\<rparr>"
      from Inr True have lt: "iteration_count st < max_iterations"
        by (simp add: should_refine_True_below_max)
      from Inr True "1.prems"(2) have run: "refine_loop auditor refiner max_iterations ?st = Inr st'"
        by (simp add: Let_def)
      from lt have "iteration_count ?st \<le> max_iterations" by simp
      with "1.IH"[OF Inr True refl] run
      have "iteration_count ?st \<le> iteration_count st' \<and> iteration_count st' \<le> max_iterations"
        by simp
      then show ?thesis by simp
    qed
  qed
qed


subsection \<open>The claims about \<open>should_refine\<close>\<close>

text \<open>
  C1. Below the maximum, for an audit report of the data model (a severity among the six
  levels, a boolean \<open>approved\<close>), \<open>should_refine\<close> returns true exactly when \<open>approved\<close> is
  false and the severity is medium, high or critical. For a report whose \<open>approved\<close> is
  true it returns false, whatever string the severity is, and also when it is absent.
\<close>

theorem should_refine_below_max:
  "(refinement_count < max_iterations \<and> report_severity r = Some s \<and> report_approved r = Some b
      \<longrightarrow> should_refine r refinement_count max_iterations =
            Inr (b = False \<and> s \<in> {str ''medium'', str ''high'', str ''critical''}))
   \<and> (report_approved r' = Some True
        \<and> (r' (str ''severity_level'') = None \<or> r' (str ''severity_level'') = Some (PStr t))
      \<longrightarrow> should_refine r' count max_it = Inr False)"
proof (intro conjI impI)
  assume a: "refinement_count < max_iterations \<and> report_severity r = Some s
               \<and> report_approved r = Some b"
  then have sev: "r (str ''severity_level'') = Some (PStr s)" and lev: "s \<in> set severity_levels"
    by (auto simp: report_severity_def split: option.splits pyval.splits if_splits)
  from a have app: "r (str ''approved'') = Some (PBool b)"
    by (auto simp: report_approved_def split: option.splits pyval.splits)
  from a sev have "should_refine r refinement_count max_iterations =
     Inr (\<not> truthy (dict_get r (str ''approved'') (PBool False))
          \<and> py_lower s \<in> {str ''medium'', str ''high'', str ''critical''})"
    by (simp add: should_refine_str)
  with app lev show "should_refine r refinement_count max_iterations =
     Inr (b = False \<and> s \<in> {str ''medium'', str ''high'', str ''critical''})"
    by (simp add: dict_get_def py_lower_levels)
next
  assume a: "report_approved r' = Some True
     \<and> (r' (str ''severity_level'') = None \<or> r' (str ''severity_level'') = Some (PStr t))"
  then have app: "r' (str ''approved'') = Some (PBool True)"
    by (auto simp: report_approved_def split: option.splits pyval.splits)
  show "should_refine r' count max_it = Inr False"
  proof (cases "count < max_it")
    case False
    then show ?thesis by (simp add: should_refine_at_max)
  next
    case True
    from a consider "r' (str ''severity_level'') = None"
      | "r' (str ''severity_level'') = Some (PStr t)" by auto
    then show ?thesis
    proof cases
      case 1
      with True show ?thesis by (rule should_refine_missing_severity)
    next
      case 2
      with True app show ?thesis by (simp add: should_refine_str dict_get_def)
    qed
  qed
qed

theorem should_refine_below_max_witness:
  "should_refine [str ''severity_level'' \<mapsto> PStr (str ''high''), str ''approved'' \<mapsto> PBool False] 0 2
     = Inr True
   \<and> should_refine [str ''severity_level'' \<mapsto> PStr (str ''low''), str ''approved'' \<mapsto> PBool False] 1 2
     = Inr False
   \<and> should_refine [str ''severity_level'' \<mapsto> PStr (str ''critical''), str ''approved'' \<mapsto> PBool True] 0 2
     = Inr False"
proof -
  let ?hi = "[str ''severity_level'' \<mapsto> PStr (str ''high''), str ''approved'' \<mapsto> PBool False]"
  let ?lo = "[str ''severity_level'' \<mapsto> PStr (str ''low''), str ''approved'' \<mapsto> PBool False]"
  let ?cr = "[str ''severity_level'' \<mapsto> PStr (str ''critical''), str ''approved'' \<mapsto> PBool True]"
  have k: "str ''approved'' \<noteq> str ''severity_level''" by (simp add: str_def)
  have hi: "report_severity ?hi = Some (str ''high'')" "report_approved ?hi = Some False"
    using k by (simp_all add: report_severity_def report_approved_def severity_levels_def)
  have lo: "report_severity ?lo = Some (str ''low'')" "report_approved ?lo = Some False"
    using k by (simp_all add: report_severity_def report_approved_def severity_levels_def)
  have cr: "report_approved ?cr = Some True"
    "?cr (str ''severity_level'') = Some (PStr (str ''critical''))"
    using k by (simp_all add: report_approved_def)
  have d: "str ''low'' \<notin> {str ''medium'', str ''high'', str ''critical''}"
    by (simp add: str_def)
  from should_refine_below_max [of 0 2 ?hi "str ''high''" False ?cr "str ''critical''" 0 2] hi cr
  have 1: "should_refine ?hi 0 2 = Inr True" and 3: "should_refine ?cr 0 2 = Inr False"
    by simp_all
  from should_refine_below_max [of 1 2 ?lo "str ''low''" False ?cr "str ''critical''" 0 2] lo d
  have 2: "should_refine ?lo 1 2 = Inr False"
    by simp
  from 1 2 3 show ?thesis by simp
qed

text \<open>
  C2. At or beyond the maximum, \<open>should_refine\<close> returns false for every dictionary,
  whatever it holds. In the loop of the specification, which goes on only when
  \<open>should_refine\<close> returns true, the iteration count therefore never decreases and never
  exceeds the maximum it started below.
\<close>

theorem should_refine_hard_stop:
  "(max_iterations \<le> refinement_count \<longrightarrow>
      should_refine audit_report refinement_count max_iterations = Inr False)
   \<and> (iteration_count st \<le> max_it \<and> refine_loop auditor refiner max_it st = Inr st'
      \<longrightarrow> iteration_count st \<le> iteration_count st' \<and> iteration_count st' \<le> max_it)"
  using should_refine_at_max refine_loop_count by blast

theorem should_refine_hard_stop_witness:
  "should_refine Map.empty 3 2 = Inr False
   \<and> refine_loop
        (\<lambda>c. [str ''severity_level'' \<mapsto> PStr (str ''high''), str ''approved'' \<mapsto> PBool False])
        (\<lambda>c r. c @ str '' // fixed'') 2
        \<lparr>code = str ''contract C {}'',
         audit = [str ''severity_level'' \<mapsto> PStr (str ''critical'')],
         iteration_count = 0\<rparr>
      = Inr \<lparr>code = str ''contract C {} // fixed // fixed'',
             audit = [str ''severity_level'' \<mapsto> PStr (str ''high''), str ''approved'' \<mapsto> PBool False],
             iteration_count = 2\<rparr>"
proof -
  let ?a = "\<lambda>c::pystr. [str ''severity_level'' \<mapsto> PStr (str ''high''), str ''approved'' \<mapsto> PBool False]"
  let ?r = "\<lambda>(c::pystr) (r::pydict). c @ str '' // fixed''"
  let ?st = "\<lparr>code = str ''contract C {}'',
         audit = [str ''severity_level'' \<mapsto> PStr (str ''critical'')],
         iteration_count = 0\<rparr>"
  let ?st' = "\<lparr>code = str ''contract C {} // fixed // fixed'',
             audit = [str ''severity_level'' \<mapsto> PStr (str ''high''), str ''approved'' \<mapsto> PBool False],
             iteration_count = 2\<rparr>"
  have run: "refine_loop ?a ?r 2 ?st = Inr ?st'"
    by (simp add: should_refine_def dict_get_def py_lower_def lower_cp_def str_def Let_def)
  have le: "iteration_count ?st \<le> 2" by simp
  from should_refine_hard_stop [where max_iterations = 2 and refinement_count = 3
      and audit_report = Map.empty and st = ?st and max_it = 2 and auditor = ?a
      and refiner = ?r and st' = ?st'] run le
  have "should_refine Map.empty 3 2 = Inr False" by simp
  with run show ?thesis by simp
qed

text \<open>
  C3. A report that is not approved and whose severity is none, low or unknown is never
  refined, whatever the count and the maximum.
\<close>

theorem should_refine_low_severity:
  assumes "report_approved r = Some False"
    and "r (str ''severity_level'') = Some (PStr s)"
    and "s \<in> {str ''none'', str ''low'', str ''unknown''}"
  shows "should_refine r refinement_count max_iterations = Inr False"
proof (cases "refinement_count < max_iterations")
  case False
  then show ?thesis by (simp add: should_refine_at_max)
next
  case True
  from assms(3) have "py_lower s \<notin> {str ''medium'', str ''high'', str ''critical''}"
    by (auto simp: str_def py_lower_def lower_cp_def)
  with True assms(2) show ?thesis by (simp add: should_refine_str)
qed

theorem should_refine_low_severity_witness:
  "should_refine [str ''severity_level'' \<mapsto> PStr (str ''unknown''), str ''approved'' \<mapsto> PBool False] 0 5
     = Inr False"
proof -
  let ?r = "[str ''severity_level'' \<mapsto> PStr (str ''unknown''), str ''approved'' \<mapsto> PBool False]"
  have k: "str ''approved'' \<noteq> str ''severity_level''" by (simp add: str_def)
  have a: "report_approved ?r = Some False" by (simp add: report_approved_def)
  have s: "?r (str ''severity_level'') = Some (PStr (str ''unknown''))" using k by simp
  show ?thesis
    by (rule should_refine_low_severity [OF a s]) simp
qed

text \<open>
  C10. A report without the key \<open>severity_level\<close> is decided like the same report with
  severity \<open>unknown\<close>, a report without the key \<open>approved\<close> like the same report with
  \<open>approved\<close> false, and a severity string like its lower-cased form. Below the maximum
  the empty report is not refined, and a report that is not approved (or has no
  \<open>approved\<close> key) and whose severity is any case variant of medium, high or critical is
  refined.
\<close>

theorem should_refine_defaults_and_case:
  "(r (str ''severity_level'') = None \<longrightarrow>
      should_refine r c m = should_refine (r(str ''severity_level'' \<mapsto> PStr (str ''unknown''))) c m)
   \<and> (r (str ''approved'') = None \<longrightarrow>
      should_refine r c m = should_refine (r(str ''approved'' \<mapsto> PBool False)) c m)
   \<and> (r (str ''severity_level'') = Some (PStr s) \<longrightarrow>
      should_refine r c m = should_refine (r(str ''severity_level'' \<mapsto> PStr (py_lower s))) c m)
   \<and> (c < m \<longrightarrow> should_refine Map.empty c m = Inr False)
   \<and> (c < m \<and> w \<in> {str ''medium'', str ''high'', str ''critical''} \<and> case_variant s' w
        \<and> r' (str ''severity_level'') = Some (PStr s')
        \<and> (r' (str ''approved'') = None \<or> r' (str ''approved'') = Some (PBool False))
      \<longrightarrow> should_refine r' c m = Inr True)"
proof (intro conjI impI)
  have k: "str ''approved'' \<noteq> str ''severity_level''" by (simp add: str_def)
  {
    assume "r (str ''severity_level'') = None"
    then show "should_refine r c m
        = should_refine (r(str ''severity_level'' \<mapsto> PStr (str ''unknown''))) c m"
      using k by (simp add: should_refine_def dict_get_def)
  next
    assume "r (str ''approved'') = None"
    then show "should_refine r c m = should_refine (r(str ''approved'' \<mapsto> PBool False)) c m"
      using k by (simp add: should_refine_def dict_get_def split: sum.splits)
  next
    assume "r (str ''severity_level'') = Some (PStr s)"
    then show "should_refine r c m
        = should_refine (r(str ''severity_level'' \<mapsto> PStr (py_lower s))) c m"
      using k by (simp add: should_refine_def dict_get_def py_lower_idem)
  next
    assume "c < m"
    then show "should_refine Map.empty c m = Inr False"
      by (simp add: should_refine_missing_severity)
  next
    assume a: "c < m \<and> w \<in> {str ''medium'', str ''high'', str ''critical''} \<and> case_variant s' w
        \<and> r' (str ''severity_level'') = Some (PStr s')
        \<and> (r' (str ''approved'') = None \<or> r' (str ''approved'') = Some (PBool False))"
    then have "w \<in> {str ''medium'', str ''high'', str ''critical''}" by simp
    then have "\<forall>c \<in> set w. 97 \<le> c \<and> c \<le> 122"
      by (rule refining_words_small_letters)
    with a have low: "py_lower s' = w"
      by (simp add: py_lower_case_variant)
    from a have "\<not> truthy (dict_get r' (str ''approved'') (PBool False))"
      by (auto simp: dict_get_def)
    with a low show "should_refine r' c m = Inr True"
      by (simp add: should_refine_str)
  }
qed

theorem should_refine_defaults_and_case_witness:
  "should_refine Map.empty 0 2 = Inr False
   \<and> should_refine Map.empty 0 2 = should_refine [str ''severity_level'' \<mapsto> PStr (str ''unknown'')] 0 2
   \<and> should_refine Map.empty 0 2 = should_refine [str ''approved'' \<mapsto> PBool False] 0 2
   \<and> should_refine [str ''severity_level'' \<mapsto> PStr (str ''HIGH''), str ''approved'' \<mapsto> PBool False] 0 2
       = Inr True
   \<and> should_refine [str ''severity_level'' \<mapsto> PStr (str ''HIGH''), str ''approved'' \<mapsto> PBool False] 0 2
       = should_refine [str ''severity_level'' \<mapsto> PStr (str ''high''), str ''approved'' \<mapsto> PBool False] 0 2"
proof -
  let ?r = "[str ''severity_level'' \<mapsto> PStr (str ''HIGH''), str ''approved'' \<mapsto> PBool False]"
  have k: "str ''approved'' \<noteq> str ''severity_level''" by (simp add: str_def)
  have cv: "case_variant (str ''HIGH'') (str ''high'')"
    by (simp add: case_variant_def str_def upper_cp_def)
  have lo: "py_lower (str ''HIGH'') = str ''high''"
    by (simp add: py_lower_def lower_cp_def str_def)
  have sev: "?r (str ''severity_level'') = Some (PStr (str ''HIGH''))" using k by simp
  have app: "?r (str ''approved'') = Some (PBool False)" by simp
  have upd: "?r(str ''severity_level'' \<mapsto> PStr (str ''high''))
      = [str ''severity_level'' \<mapsto> PStr (str ''high''), str ''approved'' \<mapsto> PBool False]"
    using k by (simp add: fun_upd_twist)
  note e = should_refine_defaults_and_case [where r = Map.empty and c = 0 and m = 2
      and w = "str ''high''" and s' = "str ''HIGH''" and r' = ?r]
  note h = should_refine_defaults_and_case [where r = ?r and s = "str ''HIGH''" and c = 0 and m = 2]
  have 2: "should_refine Map.empty 0 2
       = should_refine [str ''severity_level'' \<mapsto> PStr (str ''unknown'')] 0 2"
    by (rule e [THEN conjunct1, rule_format]) simp
  have 3: "should_refine Map.empty 0 2 = should_refine [str ''approved'' \<mapsto> PBool False] 0 2"
    by (rule e [THEN conjunct2, THEN conjunct1, rule_format]) simp
  have 1: "should_refine Map.empty 0 2 = Inr False"
    by (rule e [THEN conjunct2, THEN conjunct2, THEN conjunct2, THEN conjunct1, rule_format]) simp
  have 4: "should_refine ?r 0 2 = Inr True"
    by (rule e [THEN conjunct2, THEN conjunct2, THEN conjunct2, THEN conjunct2, rule_format])
       (simp add: cv sev app k [symmetric])
  have "should_refine ?r 0 2
      = should_refine (?r(str ''severity_level'' \<mapsto> PStr (py_lower (str ''HIGH'')))) 0 2"
    by (rule h [THEN conjunct2, THEN conjunct2, THEN conjunct1, rule_format]) (rule sev)
  then have 5: "should_refine ?r 0 2
      = should_refine [str ''severity_level'' \<mapsto> PStr (str ''high''), str ''approved'' \<mapsto> PBool False] 0 2"
    by (simp only: lo upd)
  from 1 2 3 4 5 show ?thesis by simp
qed

section \<open>Properties of the compilation checker\<close>

subsection \<open>Lines\<close>

lemma split_on_not_Nil: "split_on sep s \<noteq> []"
  by (induction s) (auto split: list.splits)

lemma join_split_on: "join_with [sep] (split_on sep s) = s"
proof (induction s)
  case Nil
  show ?case by simp
next
  case (Cons c cs)
  obtain l ls where "split_on sep cs = l # ls"
    using split_on_not_Nil [of sep cs] by (cases "split_on sep cs") auto
  with Cons show ?case by (cases ls) auto
qed

lemma split_on_without_sep: "sep \<notin> set l \<Longrightarrow> split_on sep l = [l]"
  by (induction l) auto

lemma split_on_first_sep: "sep \<notin> set l \<Longrightarrow> split_on sep (l @ sep # r) = l # split_on sep r"
  by (induction l) auto

lemma split_on_lines_free: "l \<in> set (split_on sep s) \<Longrightarrow> sep \<notin> set l"
  by (induction s arbitrary: l) (auto split: list.splits if_splits)

lemma split_on_join:
  "ls \<noteq> [] \<Longrightarrow> \<forall>l \<in> set ls. sep \<notin> set l \<Longrightarrow> split_on sep (join_with [sep] ls) = ls"
proof (induction ls)
  case Nil
  then show ?case by simp
next
  case (Cons x xs)
  show ?case
  proof (cases xs)
    case Nil
    with Cons.prems show ?thesis by (simp add: split_on_without_sep)
  next
    case (Cons y ys)
    with Cons.IH Cons.prems show ?thesis by (simp add: split_on_first_sep)
  qed
qed

lemma strip_loop_filter:
  "strip_loop lines acc
     = acc @ filter (\<lambda>line. \<not> startswith (py_strip line) (str ''pragma solidity'')) lines"
  by (induction lines arbitrary: acc) (simp_all add: Let_def)

lemma warnings_loop_filter:
  "warnings_loop lines acc = acc @ map py_strip (filter (py_in (str ''Warning:'')) lines)"
  by (induction lines arbitrary: acc) simp_all

lemma startswith_py_in: "startswith s sub \<Longrightarrow> py_in sub s"
  by (cases s) (auto simp: startswith_def)

lemma py_in_append_left: "py_in sub s \<Longrightarrow> py_in sub (p @ s)"
  by (induction p) auto

lemma startswith_append: "startswith s sub \<Longrightarrow> startswith (s @ t) sub"
proof -
  assume "startswith s sub"
  then have e: "take (length sub) s = sub" by (simp add: startswith_def)
  then have "length (take (length sub) s) = length sub" by simp
  then have "length sub \<le> length s" by simp
  with e show ?thesis by (simp add: startswith_def)
qed

lemma py_in_append_right: "py_in sub s \<Longrightarrow> py_in sub (s @ t)"
proof (induction s)
  case Nil
  then show ?case by (cases t) (auto simp: startswith_def)
next
  case (Cons c cs)
  then show ?case
    using startswith_append [of "c # cs" sub t] by auto
qed

text \<open>A line that holds the marker makes the whole text hold it.\<close>

lemma py_in_line:
  "line \<in> set (split_on sep s) \<Longrightarrow> py_in sub line \<Longrightarrow> py_in sub s"
proof (induction s arbitrary: line)
  case Nil
  then show ?case by simp
next
  case (Cons c cs)
  obtain l ls where sp: "split_on sep cs = l # ls"
    using split_on_not_Nil [of sep cs] by (cases "split_on sep cs") auto
  show ?case
  proof (cases "c = sep")
    case True
    with Cons.prems have "line = [] \<or> line \<in> set (split_on sep cs)" by auto
    then show ?thesis
    proof
      assume "line = []"
      with Cons.prems(2) have "sub = []" by simp
      then show ?thesis by (simp add: startswith_def)
    next
      assume "line \<in> set (split_on sep cs)"
      with Cons.IH Cons.prems(2) have "py_in sub cs" by blast
      then show ?thesis by simp
    qed
  next
    case False
    with Cons.prems sp have "line = c # l \<or> line \<in> set ls" by auto
    then show ?thesis
    proof
      assume e: "line = c # l"
      have "cs = join_with [sep] (l # ls)" using join_split_on [of sep cs] sp by simp
      then obtain r where "cs = l @ r" by (cases ls) auto
      then have "c # cs = (c # l) @ r" by simp
      with Cons.prems(2) e show ?thesis
        using py_in_append_right [of sub "c # l" r] by simp
    next
      assume "line \<in> set ls"
      with sp have "line \<in> set (split_on sep cs)" by simp
      with Cons.IH Cons.prems(2) have "py_in sub cs" by blast
      then show ?thesis by simp
    qed
  qed
qed

lemma collect_warnings_lines:
  "collect_warnings err
     = map py_strip (filter (py_in (str ''Warning:'')) (split_on newline err))"
proof (cases "py_in (str ''Warning:'') err")
  case True
  then show ?thesis by (simp add: collect_warnings_def warnings_loop_filter)
next
  case False
  then have "filter (py_in (str ''Warning:'')) (split_on newline err) = []"
    using py_in_line [of _ newline err "str ''Warning:''"] by (auto simp: filter_empty_conv)
  with False show ?thesis by (simp add: collect_warnings_def)
qed


subsection \<open>The pragma lines\<close>

text \<open>
  C4. The lines of a source are its pieces between line feeds. The result of
  \<open>_strip_version_pragma\<close> is the lines whose trimmed text does not start with
  \<open>pragma solidity\<close>, unchanged and in their order, joined by line feeds again; when a
  line is left, these are exactly the lines of the result.
\<close>

theorem strip_version_pragma_lines:
  "strip_version_pragma solidity_code
     = join_with [newline]
         (filter (\<lambda>line. \<not> startswith (py_strip line) (str ''pragma solidity''))
            (split_on newline solidity_code))
   \<and> join_with [newline] (split_on newline solidity_code) = solidity_code
   \<and> (filter (\<lambda>line. \<not> startswith (py_strip line) (str ''pragma solidity''))
          (split_on newline solidity_code) \<noteq> []
      \<longrightarrow> split_on newline (strip_version_pragma solidity_code)
            = filter (\<lambda>line. \<not> startswith (py_strip line) (str ''pragma solidity''))
                (split_on newline solidity_code))"
proof -
  let ?kept = "filter (\<lambda>line. \<not> startswith (py_strip line) (str ''pragma solidity''))
                 (split_on newline solidity_code)"
  have 1: "strip_version_pragma solidity_code = join_with [newline] ?kept"
    by (simp add: strip_version_pragma_def strip_loop_filter)
  have 2: "join_with [newline] (split_on newline solidity_code) = solidity_code"
    by (rule join_split_on)
  have free: "\<forall>l \<in> set ?kept. newline \<notin> set l"
    using split_on_lines_free [of _ newline solidity_code] by auto
  have 3: "?kept \<noteq> [] \<longrightarrow> split_on newline (strip_version_pragma solidity_code) = ?kept"
    using free by (simp only: 1) (blast intro: split_on_join)
  from 1 2 3 show ?thesis by blast
qed

theorem strip_version_pragma_lines_witness:
  "strip_version_pragma
     (str ''  pragma solidity ^0.8.0;'' @ [13, 10] @ str ''contract C {}'' @ [10]
        @ str ''// pragma solidity'')
   = str ''contract C {}'' @ [10] @ str ''// pragma solidity''
   \<and> split_on newline
       (strip_version_pragma
          (str ''  pragma solidity ^0.8.0;'' @ [13, 10] @ str ''contract C {}'' @ [10]
             @ str ''// pragma solidity''))
     = [str ''contract C {}'', str ''// pragma solidity'']"
proof -
  let ?src = "str ''  pragma solidity ^0.8.0;'' @ [13, 10] @ str ''contract C {}'' @ [10]
        @ str ''// pragma solidity''"
  have lines: "split_on newline ?src
      = [str ''  pragma solidity ^0.8.0;'' @ [13], str ''contract C {}'', str ''// pragma solidity'']"
    by (simp add: str_def newline_def)
  have kept: "filter (\<lambda>line. \<not> startswith (py_strip line) (str ''pragma solidity''))
         (split_on newline ?src) = [str ''contract C {}'', str ''// pragma solidity'']"
    by (simp only: lines) (simp add: str_def py_strip_def is_space_def startswith_def)
  note t = strip_version_pragma_lines [of ?src]
  from t [THEN conjunct1] kept
  have a: "strip_version_pragma ?src
      = join_with [newline] [str ''contract C {}'', str ''// pragma solidity'']"
    by simp
  from t [THEN conjunct2, THEN conjunct2] kept
  have b: "split_on newline (strip_version_pragma ?src)
      = [str ''contract C {}'', str ''// pragma solidity'']"
    by simp
  from a have c: "strip_version_pragma ?src = str ''contract C {}'' @ [10] @ str ''// pragma solidity''"
    by (simp add: newline_def)
  from c b show ?thesis by (rule conjI)
qed


subsection \<open>A call of the checker, step by step\<close>

lemma check_compilation_reached:
  assumes "solc_available self"
    and "mkdir_exist_ok e fs (str ''compilation_output'') = Inr fs1"
    and "named_temporary_file e = Inr name"
    and "write_error e = None"
  shows "check_compilation self e fs solidity_code =
     (Inr (handle (fst (try_body self e
                          (fs1(name @ str ''.sol'' \<mapsto> File (strip_version_pragma solidity_code)))
                          (str ''compilation_output'') (name @ str ''.sol'')))),
      cleanup e
        (snd (try_body self e
                (fs1(name @ str ''.sol'' \<mapsto> File (strip_version_pragma solidity_code)))
                (str ''compilation_output'') (name @ str ''.sol'')))
        (name @ str ''.sol''))"
  using assms by (simp add: check_compilation_def Let_def split_beta)

lemma try_body_raises:
  assumes "compiler_cmd self = Some (c # cs)"
    and "subprocess_run e (compile_cmd c cs output_dir tmp_path) (c = str ''npx'') 30 = Inl err"
  shows "try_body self e fs output_dir tmp_path = (Inl err, fs ++ map_of (compile_artifacts e))"
  using assms by (simp add: try_body_def Let_def)

lemma try_body_completed:
  assumes "compiler_cmd self = Some (c # cs)"
    and "subprocess_run e (compile_cmd c cs output_dir tmp_path) (c = str ''npx'') 30 = Inr result"
    and "subprocess_run e (version_cmd c cs) (c = str ''npx'') 5 = Inr version_result"
  shows "try_body self e fs output_dir tmp_path =
     (Inr \<lparr>compiles = Some (returncode result = 0),
           error_message = (if returncode result = 0 then None else Some (py_strip (stderr result))),
           warnings = (if returncode result = 0 then collect_warnings (stderr result) else []),
           compiler_version =
             Some (if returncode version_result = 0 then py_strip (stdout version_result)
                   else str ''unknown'')\<rparr>,
      fs ++ map_of (compile_artifacts e))"
  using assms by (simp add: try_body_def Let_def)

lemma try_body_files:
  "snd (try_body self e fs output_dir tmp_path) = fs
   \<or> snd (try_body self e fs output_dir tmp_path) = fs ++ map_of (compile_artifacts e)"
  by (simp add: try_body_def Let_def split: sum.splits option.splits list.splits)

lemma try_body_files_ran:
  "compiler_cmd self = Some (c # cs) \<Longrightarrow>
   snd (try_body self e fs output_dir tmp_path) = fs ++ map_of (compile_artifacts e)"
  by (simp add: try_body_def Let_def split: sum.splits)

lemma mkdir_exist_ok_dir:
  "mkdir_exist_ok e fs path = Inr fs1 \<Longrightarrow> fs1 path = Some Dir"
  by (auto simp: mkdir_exist_ok_def split: option.splits fs_entry.splits)

lemma tmp_path_not_output_dir: "name @ str ''.sol'' \<noteq> str ''compilation_output''"
proof
  assume "name @ str ''.sol'' = str ''compilation_output''"
  then have "last (name @ str ''.sol'') = last (str ''compilation_output'')" by simp
  then show False by (simp add: str_def)
qed

lemma handle_fault:
  "handle (Inl err) =
     \<lparr>compiles = Some False,
      error_message =
        Some (case err of
                TimeoutExpired m \<Rightarrow> str ''Compilation timed out after 30 seconds''
              | _ \<Rightarrow> str ''Unexpected error during compilation: '' @ exc_str err),
      warnings = [], compiler_version = None\<rparr>"
  by (cases err) simp_all

lemma check_solc_available_none:
  assumes "probe (subprocess_run e [str ''solc'', str ''--version''] False 5) = Inr False"
    and "probe (subprocess_run e [str ''npx'', str ''solcjs'', str ''--version''] True 5) = Inr False"
  shows "init e = Inr \<lparr>compiler_cmd = None, solc_available = False\<rparr>"
  using assms by (simp add: init_def check_solc_available_def)

subsection \<open>The claims about \<open>check_compilation\<close>\<close>

text \<open>
  The branch for a checker that found no compiler: every source is answered with the
  result whose \<open>compiles\<close> is \<open>None\<close>, whose warnings are empty, whose compiler version is
  \<open>None\<close> and whose error message says that the compiler is not available; nothing is
  raised and no file is touched. When both probes find nothing, the checker is built in
  that state.
\<close>

lemma check_compilation_not_available:
  "(\<not> solc_available self \<longrightarrow>
      check_compilation self e fs solidity_code =
        (Inr \<lparr>compiles = None,
              error_message =
                Some (str ''solc compiler not available. Install with: npm install -g solc''),
              warnings = [], compiler_version = None\<rparr>, fs))
   \<and> (probe (subprocess_run e' [str ''solc'', str ''--version''] False 5) = Inr False
        \<and> probe (subprocess_run e' [str ''npx'', str ''solcjs'', str ''--version''] True 5) = Inr False
      \<longrightarrow> check_solidity_compiles e' fs solidity_code =
        (Inr \<lparr>compiles = None,
              error_message =
                Some (str ''solc compiler not available. Install with: npm install -g solc''),
              warnings = [], compiler_version = None\<rparr>, fs))
   \<and> py_in (str ''not available'')
        (str ''solc compiler not available. Install with: npm install -g solc'')"
proof (intro conjI impI)
  assume "\<not> solc_available self"
  then show "check_compilation self e fs solidity_code =
        (Inr \<lparr>compiles = None,
              error_message =
                Some (str ''solc compiler not available. Install with: npm install -g solc''),
              warnings = [], compiler_version = None\<rparr>, fs)"
    by (simp add: check_compilation_def)
next
  assume "probe (subprocess_run e' [str ''solc'', str ''--version''] False 5) = Inr False
        \<and> probe (subprocess_run e' [str ''npx'', str ''solcjs'', str ''--version''] True 5) = Inr False"
  then have "init e' = Inr \<lparr>compiler_cmd = None, solc_available = False\<rparr>"
    by (simp add: check_solc_available_none)
  then show "check_solidity_compiles e' fs solidity_code =
        (Inr \<lparr>compiles = None,
              error_message =
                Some (str ''solc compiler not available. Install with: npm install -g solc''),
              warnings = [], compiler_version = None\<rparr>, fs)"
    by (simp add: check_solidity_compiles_def check_compilation_def)
next
  show "py_in (str ''not available'')
        (str ''solc compiler not available. Install with: npm install -g solc'')"
    by (simp add: str_def startswith_def)
qed

lemma posix_run_shell_first_item:
  "posix_run h (prog # args) True timeout = posix_run h [prog] True timeout"
  by (simp add: posix_run_def)

text \<open>
  C5. On a POSIX host that has \<open>npx\<close> but neither \<open>solc\<close> nor \<open>solcjs\<close>, the second probe
  of \<open>_check_solc_available\<close> passes a list together with \<open>shell=True\<close>, so it runs \<open>npx\<close>
  alone, which ends with return code 0. The checker is built with \<open>solc_available\<close> true,
  the compile command runs \<open>npx\<close> alone as well, and \<open>check_compilation\<close> answers that the
  source compiles, instead of the result with \<open>compiles\<close> equal to \<open>None\<close>.
\<close>

theorem check_solidity_compiles_npx_only:
  "npx_only_host (str ''solc'') = None
   \<and> npx_only_host (str ''solcjs'') = None
   \<and> init (posix_env npx_only_host)
       = Inr \<lparr>compiler_cmd = Some [str ''npx'', str ''solcjs''], solc_available = True\<rparr>
   \<and> fst (check_solidity_compiles (posix_env npx_only_host) no_files (str ''contract C {}''))
       = Inr \<lparr>compiles = Some True, error_message = None, warnings = [],
              compiler_version = Some []\<rparr>"
proof (intro conjI)
  have k: "str ''solc'' \<noteq> str ''npx''" "str ''solcjs'' \<noteq> str ''npx''"
    by (simp_all add: str_def)
  show "npx_only_host (str ''solc'') = None" and "npx_only_host (str ''solcjs'') = None"
    using k by (simp_all add: npx_only_host_def)
  have solc: "subprocess_run (posix_env npx_only_host) [str ''solc'', str ''--version''] False 5
      = Inl (FileNotFoundError
               (str ''[Errno 2] No such file or directory: '' @ [39] @ str ''solc'' @ [39]))"
    using k by (simp add: posix_env_def posix_run_def npx_only_host_def)
  have npx: "\<And>args t. subprocess_run (posix_env npx_only_host) (str ''npx'' # args) True t
      = Inr \<lparr>returncode = 0, stdout = [], stderr = []\<rparr>"
    by (simp add: posix_env_def posix_run_def npx_only_host_def)
  show i: "init (posix_env npx_only_host)
       = Inr \<lparr>compiler_cmd = Some [str ''npx'', str ''solcjs''], solc_available = True\<rparr>"
    by (simp add: init_def check_solc_available_def solc npx)
  have env: "mkdir_error (posix_env npx_only_host) = None"
    "named_temporary_file (posix_env npx_only_host) = Inr (str ''/tmp/tmpk3v9'')"
    "write_error (posix_env npx_only_host) = None"
    by (simp_all add: posix_env_def)
  have w: "collect_warnings [] = []"
    by (simp add: collect_warnings_def str_def startswith_def)
  have st: "py_strip [] = []" by (simp add: py_strip_def)
  show "fst (check_solidity_compiles (posix_env npx_only_host) no_files (str ''contract C {}''))
       = Inr \<lparr>compiles = Some True, error_message = None, warnings = [],
              compiler_version = Some []\<rparr>"
    by (simp add: check_solidity_compiles_def i check_compilation_def mkdir_exist_ok_def
        no_files_def env try_body_def compile_cmd_def version_cmd_def npx w st Let_def)
qed

text \<open>
  C7. When the call has reached the compiler and the run of the compile command raises,
  by the timeout of 30 seconds or otherwise, \<open>check_compilation\<close> returns a result and
  raises nothing: \<open>compiles\<close> is false, and the error message is the timeout text or the
  text of the exception after a fixed prefix.
\<close>

theorem check_compilation_fault:
  assumes "solc_available self"
    and "compiler_cmd self = Some (c # cs)"
    and "mkdir_exist_ok e fs (str ''compilation_output'') = Inr fs1"
    and "named_temporary_file e = Inr name"
    and "write_error e = None"
    and "subprocess_run e
           (compile_cmd c cs (str ''compilation_output'') (name @ str ''.sol''))
           (c = str ''npx'') 30 = Inl err"
  shows "fst (check_compilation self e fs solidity_code) =
     Inr \<lparr>compiles = Some False,
          error_message =
            Some (case err of
                    TimeoutExpired m \<Rightarrow> str ''Compilation timed out after 30 seconds''
                  | _ \<Rightarrow> str ''Unexpected error during compilation: '' @ exc_str err),
          warnings = [], compiler_version = None\<rparr>"
proof -
  have "fst (try_body self e
               (fs1(name @ str ''.sol'' \<mapsto> File (strip_version_pragma solidity_code)))
               (str ''compilation_output'') (name @ str ''.sol'')) = Inl err"
    using assms(2,6) by (simp add: try_body_raises)
  with assms(1,3,4,5) show ?thesis
    by (simp only: check_compilation_reached fst_conv handle_fault)
qed

theorem check_compilation_fault_witness:
  "fst (check_compilation solc_checker
          (solc_env (Inl (TimeoutExpired (str ''timed out after 30 seconds''))) [] None)
          Map.empty (str ''contract C {}''))
   = Inr \<lparr>compiles = Some False,
          error_message = Some (str ''Compilation timed out after 30 seconds''),
          warnings = [], compiler_version = None\<rparr>
   \<and> fst (check_compilation solc_checker
          (solc_env (Inl (OSError (str ''Exec format error''))) [] None)
          Map.empty (str ''contract C {}''))
   = Inr \<lparr>compiles = Some False,
          error_message = Some (str ''Unexpected error during compilation: Exec format error''),
          warnings = [], compiler_version = None\<rparr>"
proof -
  have avail: "solc_available solc_checker" and cmd: "compiler_cmd solc_checker = Some (str ''solc'' # [])"
    by (simp_all add: solc_checker_def)
  have mk: "\<And>x. mkdir_exist_ok (solc_env x [] None) Map.empty (str ''compilation_output'')
      = Inr [str ''compilation_output'' \<mapsto> Dir]"
    by (simp add: mkdir_exist_ok_def solc_env_def)
  have tmp: "\<And>x. named_temporary_file (solc_env x [] None) = Inr (str ''/tmp/tmpk3v9'')"
    and wr: "\<And>x. write_error (solc_env x [] None) = None"
    by (simp_all add: solc_env_def)
  have run: "\<And>x. subprocess_run (solc_env x [] None)
      (compile_cmd (str ''solc'') [] (str ''compilation_output'') (str ''/tmp/tmpk3v9'' @ str ''.sol''))
      (str ''solc'' = str ''npx'') 30 = x"
    by (simp add: solc_env_def compile_cmd_def str_def)
  have a: "fst (check_compilation solc_checker
          (solc_env (Inl (TimeoutExpired (str ''timed out after 30 seconds''))) [] None)
          Map.empty (str ''contract C {}''))
   = Inr \<lparr>compiles = Some False,
          error_message = Some (str ''Compilation timed out after 30 seconds''),
          warnings = [], compiler_version = None\<rparr>"
    using check_compilation_fault [OF avail cmd mk tmp wr run] by simp
  have b: "fst (check_compilation solc_checker
          (solc_env (Inl (OSError (str ''Exec format error''))) [] None)
          Map.empty (str ''contract C {}''))
   = Inr \<lparr>compiles = Some False,
          error_message = Some (str ''Unexpected error during compilation: Exec format error''),
          warnings = [], compiler_version = None\<rparr>"
    using check_compilation_fault [OF avail cmd mk tmp wr run] by (simp add: str_def)
  from a b show ?thesis by (rule conjI)
qed

text \<open>
  C6, as the code has it. When the call has reached the compiler and both the compile
  command and the version command have run to their end: on return code 0 the warnings
  are the lines of the standard error output that hold \<open>Warning:\<close>, each one trimmed,
  in their order, and there is no error message; on any other return code the warnings
  are empty and the error message is the whole standard error output, trimmed.
\<close>

theorem check_compilation_stderr:
  assumes "solc_available self"
    and "compiler_cmd self = Some (c # cs)"
    and "mkdir_exist_ok e fs (str ''compilation_output'') = Inr fs1"
    and "named_temporary_file e = Inr name"
    and "write_error e = None"
    and "subprocess_run e
           (compile_cmd c cs (str ''compilation_output'') (name @ str ''.sol''))
           (c = str ''npx'') 30 = Inr result"
    and "subprocess_run e (version_cmd c cs) (c = str ''npx'') 5 = Inr version_result"
  shows "fst (check_compilation self e fs solidity_code) =
     Inr \<lparr>compiles = Some (returncode result = 0),
          error_message = (if returncode result = 0 then None else Some (py_strip (stderr result))),
          warnings =
            (if returncode result = 0
             then map py_strip (filter (py_in (str ''Warning:'')) (split_on newline (stderr result)))
             else []),
          compiler_version =
            Some (if returncode version_result = 0 then py_strip (stdout version_result)
                  else str ''unknown'')\<rparr>"
proof -
  have "fst (try_body self e
               (fs1(name @ str ''.sol'' \<mapsto> File (strip_version_pragma solidity_code)))
               (str ''compilation_output'') (name @ str ''.sol''))
     = Inr \<lparr>compiles = Some (returncode result = 0),
          error_message = (if returncode result = 0 then None else Some (py_strip (stderr result))),
          warnings = (if returncode result = 0 then collect_warnings (stderr result) else []),
          compiler_version =
            Some (if returncode version_result = 0 then py_strip (stdout version_result)
                  else str ''unknown'')\<rparr>"
    using assms(2,6,7) by (simp add: try_body_completed)
  with assms(1,3,4,5) show ?thesis
    by (simp only: check_compilation_reached fst_conv handle.simps collect_warnings_lines)
qed

theorem check_compilation_stderr_witness:
  "fst (check_compilation solc_checker
          (solc_env (Inr \<lparr>returncode = 0, stdout = [], stderr = str ''  Warning: unused variable''\<rparr>)
             [] None)
          Map.empty (str ''contract C {}''))
   = Inr \<lparr>compiles = Some True, error_message = None,
          warnings = [str ''Warning: unused variable''],
          compiler_version = Some (str ''0.8.20'')\<rparr>"
proof -
  let ?res = "\<lparr>returncode = 0, stdout = [], stderr = str ''  Warning: unused variable''\<rparr>"
  let ?ver = "\<lparr>returncode = 0, stdout = str ''0.8.20'' @ [newline], stderr = []\<rparr>"
  let ?e = "solc_env (Inr ?res) [] None"
  have avail: "solc_available solc_checker" and cmd: "compiler_cmd solc_checker = Some (str ''solc'' # [])"
    by (simp_all add: solc_checker_def)
  have mk: "mkdir_exist_ok ?e Map.empty (str ''compilation_output'')
      = Inr [str ''compilation_output'' \<mapsto> Dir]"
    by (simp add: mkdir_exist_ok_def solc_env_def)
  have tmp: "named_temporary_file ?e = Inr (str ''/tmp/tmpk3v9'')"
    and wr: "write_error ?e = None"
    by (simp_all add: solc_env_def)
  have run: "subprocess_run ?e
      (compile_cmd (str ''solc'') [] (str ''compilation_output'') (str ''/tmp/tmpk3v9'' @ str ''.sol''))
      (str ''solc'' = str ''npx'') 30 = Inr ?res"
    by (simp add: solc_env_def compile_cmd_def str_def)
  have ver: "subprocess_run ?e (version_cmd (str ''solc'') []) (str ''solc'' = str ''npx'') 5 = Inr ?ver"
    by (simp add: solc_env_def version_cmd_def)
  have w: "map py_strip (filter (py_in (str ''Warning:'')) (split_on newline (stderr ?res)))
      = [str ''Warning: unused variable'']"
    by (simp add: str_def newline_def startswith_def py_strip_def is_space_def)
  have v: "py_strip (stdout ?ver) = str ''0.8.20''"
    by (simp add: str_def newline_def py_strip_def is_space_def)
  from check_compilation_stderr [OF avail cmd mk tmp wr run ver, of "str ''contract C {}''"] w v
  show ?thesis by simp
qed


text \<open>
  C6, as the claim states it, fails twice. A warning line with leading blanks is
  collected without them, not verbatim. And after a failed compilation the line that
  holds \<open>Warning:\<close> is not collected at all and is part of the error message.
\<close>

theorem check_compilation_stderr_counterexample:
  "fst (check_compilation solc_checker
          (solc_env (Inr \<lparr>returncode = 0, stdout = [], stderr = str ''  Warning: unused variable''\<rparr>)
             [] None)
          no_files (str ''contract C {}''))
   = Inr \<lparr>compiles = Some True, error_message = None,
          warnings = [str ''Warning: unused variable''],
          compiler_version = Some (str ''0.8.20'')\<rparr>
   \<and> split_on newline (str ''  Warning: unused variable'') = [str ''  Warning: unused variable'']
   \<and> py_in (str ''Warning:'') (str ''  Warning: unused variable'')
   \<and> [str ''Warning: unused variable''] \<noteq> [str ''  Warning: unused variable'']
   \<and> fst (check_compilation solc_checker
          (solc_env (Inr \<lparr>returncode = 1, stdout = [],
                           stderr = str ''Warning: shadowing'' @ [newline] @ str ''Error: expected ;''\<rparr>)
             [] None)
          no_files (str ''contract C {}''))
   = Inr \<lparr>compiles = Some False,
          error_message = Some (str ''Warning: shadowing'' @ [newline] @ str ''Error: expected ;''),
          warnings = [],
          compiler_version = Some (str ''0.8.20'')\<rparr>
   \<and> split_on newline (str ''Warning: shadowing'' @ [newline] @ str ''Error: expected ;'')
       = [str ''Warning: shadowing'', str ''Error: expected ;'']
   \<and> py_in (str ''Warning:'') (str ''Warning: shadowing'')
   \<and> str ''Warning: shadowing'' @ [newline] @ str ''Error: expected ;'' \<noteq> str ''Error: expected ;''"
proof (intro conjI)
  show "fst (check_compilation solc_checker
          (solc_env (Inr \<lparr>returncode = 0, stdout = [], stderr = str ''  Warning: unused variable''\<rparr>)
             [] None)
          no_files (str ''contract C {}''))
   = Inr \<lparr>compiles = Some True, error_message = None,
          warnings = [str ''Warning: unused variable''],
          compiler_version = Some (str ''0.8.20'')\<rparr>"
    by (simp add: check_compilation_def solc_checker_def solc_env_def no_files_def
        mkdir_exist_ok_def try_body_def compile_cmd_def version_cmd_def collect_warnings_def
        py_strip_def is_space_def startswith_def str_def newline_def Let_def cleanup_def)
  show "fst (check_compilation solc_checker
          (solc_env (Inr \<lparr>returncode = 1, stdout = [],
                           stderr = str ''Warning: shadowing'' @ [newline] @ str ''Error: expected ;''\<rparr>)
             [] None)
          no_files (str ''contract C {}''))
   = Inr \<lparr>compiles = Some False,
          error_message = Some (str ''Warning: shadowing'' @ [newline] @ str ''Error: expected ;''),
          warnings = [],
          compiler_version = Some (str ''0.8.20'')\<rparr>"
    by (simp add: check_compilation_def solc_checker_def solc_env_def no_files_def
        mkdir_exist_ok_def try_body_def compile_cmd_def version_cmd_def
        py_strip_def is_space_def str_def newline_def Let_def cleanup_def)
qed (simp_all add: str_def newline_def startswith_def)

text \<open>
  C8, as the claim states it, fails: after a successful call on a file system without
  files, the directory \<open>compilation_output\<close> that the call made and the file that the
  compiler wrote into it are still there. And when the unlink fails, which the code
  ignores, the temporary source file stays as well.
\<close>

theorem check_compilation_cleanup_counterexample:
  "snd (check_compilation solc_checker
          (solc_env (Inr \<lparr>returncode = 0, stdout = [], stderr = []\<rparr>)
             [(str ''compilation_output/C.bin'', File (str ''6080''))] None)
          no_files (str ''contract C {}''))
       (str ''compilation_output'') = Some Dir
   \<and> snd (check_compilation solc_checker
          (solc_env (Inr \<lparr>returncode = 0, stdout = [], stderr = []\<rparr>)
             [(str ''compilation_output/C.bin'', File (str ''6080''))] None)
          no_files (str ''contract C {}''))
       (str ''compilation_output/C.bin'') = Some (File (str ''6080''))
   \<and> no_files (str ''compilation_output'') = None
   \<and> no_files (str ''compilation_output/C.bin'') = None
   \<and> snd (check_compilation solc_checker
          (solc_env (Inr \<lparr>returncode = 0, stdout = [], stderr = []\<rparr>) []
             (Some (OSError (str ''Permission denied''))))
          no_files (str ''contract C {}''))
       (str ''/tmp/tmpk3v9.sol'') = Some (File (str ''contract C {}''))"
proof (intro conjI)
  have sv: "strip_version_pragma (str ''contract C {}'') = str ''contract C {}''"
    by (simp add: strip_version_pragma_def str_def newline_def py_strip_def is_space_def
        startswith_def)
  show "snd (check_compilation solc_checker
          (solc_env (Inr \<lparr>returncode = 0, stdout = [], stderr = []\<rparr>) []
             (Some (OSError (str ''Permission denied''))))
          no_files (str ''contract C {}''))
       (str ''/tmp/tmpk3v9.sol'') = Some (File (str ''contract C {}''))"
    by (simp add: check_compilation_def sv solc_checker_def solc_env_def no_files_def
        mkdir_exist_ok_def try_body_def compile_cmd_def version_cmd_def collect_warnings_def
        Let_def cleanup_def)
       (simp add: str_def)
qed (simp_all add: check_compilation_def solc_checker_def solc_env_def no_files_def
        mkdir_exist_ok_def try_body_def compile_cmd_def version_cmd_def collect_warnings_def
        str_def Let_def cleanup_def)

text \<open>
  C8, as the code has it. Every call that has reached the compiler returns a result,
  whatever happened in between and whether or not the unlink at the end succeeds. The
  temporary source file is gone when that unlink succeeds and still there when it fails.
  The directory \<open>compilation_output\<close> is still there, and so is every file that the
  compiler wrote under another name than the temporary one.
\<close>

theorem check_compilation_cleanup:
  assumes "solc_available self"
    and "mkdir_exist_ok e fs (str ''compilation_output'') = Inr fs1"
    and "named_temporary_file e = Inr name"
    and "write_error e = None"
  shows "\<not> isl (fst (check_compilation self e fs solidity_code))
    \<and> (unlink_error e = None \<longrightarrow>
         snd (check_compilation self e fs solidity_code) (name @ str ''.sol'') = None)
    \<and> (unlink_error e \<noteq> None \<longrightarrow>
         snd (check_compilation self e fs solidity_code) (name @ str ''.sol'') \<noteq> None)
    \<and> snd (check_compilation self e fs solidity_code) (str ''compilation_output'') \<noteq> None
    \<and> (compiler_cmd self = Some (c # cs) \<longrightarrow>
         (\<forall>p \<in> fst ` set (compile_artifacts e).
            p \<noteq> name @ str ''.sol'' \<longrightarrow>
            snd (check_compilation self e fs solidity_code) p \<noteq> None))"
proof -
  let ?tp = "name @ str ''.sol''"
  let ?od = "str ''compilation_output''"
  let ?fs0 = "fs1(?tp \<mapsto> File (strip_version_pragma solidity_code))"
  let ?tb = "try_body self e ?fs0 ?od ?tp"
  have eq: "check_compilation self e fs solidity_code
      = (Inr (handle (fst ?tb)), cleanup e (snd ?tb) ?tp)"
    using assms by (simp add: check_compilation_reached)
  have keep: "\<And>p. p \<noteq> ?tp \<Longrightarrow> cleanup e (snd ?tb) ?tp p = snd ?tb p"
    by (simp add: cleanup_def split: option.splits)
  have 1: "\<not> isl (fst (check_compilation self e fs solidity_code))"
    by (simp add: eq)
  have 2: "unlink_error e = None \<longrightarrow>
      snd (check_compilation self e fs solidity_code) ?tp = None"
    by (simp add: eq cleanup_def)
  have tp0: "snd ?tb ?tp \<noteq> None"
    using try_body_files [of self e ?fs0 ?od ?tp]
    by (auto simp: map_add_def split: option.splits)
  have 3: "unlink_error e \<noteq> None \<longrightarrow>
      snd (check_compilation self e fs solidity_code) ?tp \<noteq> None"
    using tp0 by (auto simp: eq cleanup_def)
  have ne: "?tp \<noteq> ?od" by (rule tmp_path_not_output_dir)
  have "fs1 ?od = Some Dir" using assms(2) by (rule mkdir_exist_ok_dir)
  with ne have od0: "?fs0 ?od \<noteq> None" by simp
  have "snd ?tb ?od \<noteq> None"
    using try_body_files [of self e ?fs0 ?od ?tp] od0 by (auto simp: map_add_def split: option.splits)
  with ne have 4: "snd (check_compilation self e fs solidity_code) ?od \<noteq> None"
    using keep [of ?od] by (simp add: eq)
  have 5: "compiler_cmd self = Some (c # cs) \<longrightarrow>
         (\<forall>p \<in> fst ` set (compile_artifacts e).
            p \<noteq> ?tp \<longrightarrow> snd (check_compilation self e fs solidity_code) p \<noteq> None)"
  proof (intro impI ballI)
    fix p
    assume cmd: "compiler_cmd self = Some (c # cs)"
      and p: "p \<in> fst ` set (compile_artifacts e)" and pn: "p \<noteq> ?tp"
    from cmd have "snd ?tb = ?fs0 ++ map_of (compile_artifacts e)"
      by (rule try_body_files_ran)
    moreover from p have "map_of (compile_artifacts e) p \<noteq> None"
      by (simp add: map_of_eq_None_iff)
    ultimately have "snd ?tb p \<noteq> None"
      by (auto simp: map_add_def split: option.splits)
    with pn show "snd (check_compilation self e fs solidity_code) p \<noteq> None"
      using keep [of p] by (simp add: eq)
  qed
  from 1 2 3 4 5 show ?thesis by blast
qed

theorem check_compilation_cleanup_witness:
  "\<not> isl (fst (check_compilation solc_checker
          (solc_env (Inl (TimeoutExpired (str ''timed out'')))
             [(str ''compilation_output/C.bin'', File (str ''6080''))] None)
          Map.empty (str ''contract C {}'')))
   \<and> snd (check_compilation solc_checker
          (solc_env (Inl (TimeoutExpired (str ''timed out'')))
             [(str ''compilation_output/C.bin'', File (str ''6080''))] None)
          Map.empty (str ''contract C {}''))
        (str ''/tmp/tmpk3v9'' @ str ''.sol'') = None
   \<and> snd (check_compilation solc_checker
          (solc_env (Inl (TimeoutExpired (str ''timed out'')))
             [(str ''compilation_output/C.bin'', File (str ''6080''))] None)
          Map.empty (str ''contract C {}''))
        (str ''compilation_output'') \<noteq> None
   \<and> snd (check_compilation solc_checker
          (solc_env (Inl (TimeoutExpired (str ''timed out'')))
             [(str ''compilation_output/C.bin'', File (str ''6080''))] None)
          Map.empty (str ''contract C {}''))
        (str ''compilation_output/C.bin'') \<noteq> None
   \<and> \<not> isl (fst (check_compilation solc_checker
          (solc_env (Inl (TimeoutExpired (str ''timed out''))) []
             (Some (OSError (str ''Permission denied''))))
          Map.empty (str ''contract C {}'')))
   \<and> snd (check_compilation solc_checker
          (solc_env (Inl (TimeoutExpired (str ''timed out''))) []
             (Some (OSError (str ''Permission denied''))))
          Map.empty (str ''contract C {}''))
        (str ''/tmp/tmpk3v9'' @ str ''.sol'') \<noteq> None
   \<and> snd (check_compilation solc_checker
          (solc_env (Inl (TimeoutExpired (str ''timed out''))) []
             (Some (OSError (str ''Permission denied''))))
          Map.empty (str ''contract C {}''))
        (str ''compilation_output'') \<noteq> None"
proof -
  let ?e = "solc_env (Inl (TimeoutExpired (str ''timed out'')))
             [(str ''compilation_output/C.bin'', File (str ''6080''))] None"
  let ?f = "solc_env (Inl (TimeoutExpired (str ''timed out''))) []
             (Some (OSError (str ''Permission denied'')))"
  have avail: "solc_available solc_checker" and cmd: "compiler_cmd solc_checker = Some (str ''solc'' # [])"
    by (simp_all add: solc_checker_def)
  have mk: "\<And>x a u. mkdir_exist_ok (solc_env x a u) Map.empty (str ''compilation_output'')
      = Inr [str ''compilation_output'' \<mapsto> Dir]"
    by (simp add: mkdir_exist_ok_def solc_env_def)
  have tmp: "\<And>x a u. named_temporary_file (solc_env x a u) = Inr (str ''/tmp/tmpk3v9'')"
    and wr: "\<And>x a u. write_error (solc_env x a u) = None"
    by (simp_all add: solc_env_def)
  have ul: "unlink_error ?e = None" and uf: "unlink_error ?f \<noteq> None"
    by (simp_all add: solc_env_def)
  have art: "str ''compilation_output/C.bin'' \<in> fst ` set (compile_artifacts ?e)"
    by (simp add: solc_env_def)
  have ne: "str ''compilation_output/C.bin'' \<noteq> str ''/tmp/tmpk3v9'' @ str ''.sol''"
    by (simp add: str_def)
  note t = check_compilation_cleanup [OF avail mk tmp wr,
      where solidity_code = "str ''contract C {}''" and c = "str ''solc''" and cs = "[]"]
  from t [of "Inl (TimeoutExpired (str ''timed out''))"
        "[(str ''compilation_output/C.bin'', File (str ''6080''))]" None] cmd art ne ul
  have a: "\<not> isl (fst (check_compilation solc_checker ?e Map.empty (str ''contract C {}'')))
     \<and> snd (check_compilation solc_checker ?e Map.empty (str ''contract C {}''))
          (str ''/tmp/tmpk3v9'' @ str ''.sol'') = None
     \<and> snd (check_compilation solc_checker ?e Map.empty (str ''contract C {}''))
          (str ''compilation_output'') \<noteq> None
     \<and> snd (check_compilation solc_checker ?e Map.empty (str ''contract C {}''))
          (str ''compilation_output/C.bin'') \<noteq> None"
    by blast
  from t [of "Inl (TimeoutExpired (str ''timed out''))" "[]"
        "Some (OSError (str ''Permission denied''))"] uf
  have b: "\<not> isl (fst (check_compilation solc_checker ?f Map.empty (str ''contract C {}'')))
     \<and> snd (check_compilation solc_checker ?f Map.empty (str ''contract C {}''))
          (str ''/tmp/tmpk3v9'' @ str ''.sol'') \<noteq> None
     \<and> snd (check_compilation solc_checker ?f Map.empty (str ''contract C {}''))
          (str ''compilation_output'') \<noteq> None"
    by blast
  from a b show ?thesis by blast
qed


section \<open>Properties of the launcher\<close>

text \<open>
  C9. Without \<open>demo.html\<close> the asset check prints the error and ends the process through
  \<open>sys.exit(1)\<close>, whether or not \<open>sampler.html\<close> is there. With \<open>demo.html\<close> and without
  \<open>sampler.html\<close> it prints the two lines of the warning and the script goes on.
\<close>

theorem asset_check_exit:
  "(\<not> exists fs (path_join (path_join workspace_root (str ''contract-translator''))
                    (str ''demo.html''))
      \<longrightarrow> asset_check fs workspace_root =
            ([[10, 10060] @ str '' Error: demo.html not found at ''
                @ path_join (path_join workspace_root (str ''contract-translator''))
                    (str ''demo.html'')],
             SysExit 1))
   \<and> (exists fs (path_join (path_join workspace_root (str ''contract-translator''))
                    (str ''demo.html''))
        \<and> \<not> exists fs (path_join (path_join workspace_root (str ''contract-translator''))
                    (str ''sampler.html''))
      \<longrightarrow> asset_check fs workspace_root =
            ([[10, 9888, 65039] @ str '' Warning: sampler.html not found at ''
                @ path_join (path_join workspace_root (str ''contract-translator''))
                    (str ''sampler.html''),
              str ''   Dataset browser will not be available.'' @ [10]],
             Continue))"
  by (simp add: asset_check_def Let_def)

theorem asset_check_exit_witness:
  "snd (asset_check Map.empty (str ''/app'')) = SysExit 1
   \<and> snd (asset_check [str ''/app/contract-translator/sampler.html'' \<mapsto> File []] (str ''/app''))
       = SysExit 1
   \<and> snd (asset_check [str ''/app/contract-translator/demo.html'' \<mapsto> File []] (str ''/app''))
       = Continue"
proof -
  have demo: "path_join (path_join (str ''/app'') (str ''contract-translator'')) (str ''demo.html'')
      = str ''/app/contract-translator/demo.html''"
    and sampler:
      "path_join (path_join (str ''/app'') (str ''contract-translator'')) (str ''sampler.html'')
      = str ''/app/contract-translator/sampler.html''"
    by (simp_all add: path_join_def str_def)
  have ne: "str ''/app/contract-translator/demo.html'' \<noteq> str ''/app/contract-translator/sampler.html''"
    by (simp add: str_def)
  have a: "snd (asset_check Map.empty (str ''/app'')) = SysExit 1"
    using asset_check_exit [of Map.empty "str ''/app''"] by (simp add: exists_def)
  have b: "snd (asset_check [str ''/app/contract-translator/sampler.html'' \<mapsto> File []] (str ''/app''))
       = SysExit 1"
    using asset_check_exit [of "[str ''/app/contract-translator/sampler.html'' \<mapsto> File []]"
        "str ''/app''"] ne
    by (simp add: exists_def demo)
  have c: "snd (asset_check [str ''/app/contract-translator/demo.html'' \<mapsto> File []] (str ''/app''))
       = Continue"
    using asset_check_exit [of "[str ''/app/contract-translator/demo.html'' \<mapsto> File []]"
        "str ''/app''"] ne
    by (simp add: exists_def demo sampler)
  from a b c show ?thesis by simp
qed


end
